theory Spec2Isabelle
  imports Complex_Main
begin

section \<open>Values exchanged with the hosted backend\<close>

text \<open>
  A value that travels through \<^verbatim>\<open>throw\<close> / \<^verbatim>\<open>catch\<close>. The source inspects such a
  value in exactly four ways: \<^verbatim>\<open>instanceof Error\<close>, \<^verbatim>\<open>instanceof AuthError\<close>,
  \<^verbatim>\<open>.message\<close> and \<^verbatim>\<open>.code\<close>. \<open>AuthError\<close> is a subclass of \<open>Error\<close>;
  \<open>NotAnError\<close> stands for a thrown value that is no \<open>Error\<close> instance at all
  (a plain error object handed back by the store client).
\<close>

datatype error_class = AuthError | Error | NotAnError

record thrown =
  cls :: error_class
  message :: string
  code :: "string option"

definition instanceof_Error :: "thrown \<Rightarrow> bool" where
  "instanceof_Error e = (cls e \<noteq> NotAnError)"

definition instanceof_AuthError :: "thrown \<Rightarrow> bool" where
  "instanceof_AuthError e = (cls e = AuthError)"

definition new_Error :: "string \<Rightarrow> thrown" where
  "new_Error m = \<lparr>cls = Error, message = m, code = None\<rparr>"

text \<open>An awaited promise either rejects with a thrown value or resolves.\<close>

datatype 'a promise = Rejects thrown | Resolves 'a

text \<open>
  The two library types the source reads fields of. \<open>id'\<close> is \<^verbatim>\<open>user.id\<close>,
  \<open>session_user\<close> is \<^verbatim>\<open>session.user\<close>; \<^verbatim>\<open>expires_at\<close> is an optional number
  (epoch seconds).
\<close>

record User =
  id' :: string
  email :: string

record Session =
  session_user :: User
  expires_at :: "int option"

text \<open>
  The Supabase client, as far as \<^verbatim>\<open>auth-context.tsx\<close> calls it. Every call resolves
  to an object with a \<^verbatim>\<open>data\<close> and an \<^verbatim>\<open>error\<close> part, modelled as a pair, or
  rejects. \<open>'p\<close> is the \<^verbatim>\<open>Profile\<close> row type and \<open>'u\<close> is \<^verbatim>\<open>Partial<Profile>\<close>;
  both are declared in a module outside the modelled sources.
\<close>

record ('p, 'u) supabase =
  auth_getSession :: "(Session option \<times> thrown option) promise"
  auth_signInWithPassword :: "string \<Rightarrow> string \<Rightarrow> (Session option \<times> thrown option) promise"
  auth_signUp ::
    "string \<Rightarrow> string \<Rightarrow> string \<Rightarrow> ((User option \<times> Session option) \<times> thrown option) promise"
  auth_signOut :: "thrown option promise"
  profiles_select :: "string \<Rightarrow> ('p option \<times> thrown option) promise"
  profiles_update :: "'u \<Rightarrow> string \<Rightarrow> ('p option \<times> thrown option) promise"

text \<open>The calls an operation issued to the backend, in order.\<close>

datatype 'u call =
    Auth_getSession
  | Auth_signInWithPassword string string
  | Auth_signUp string string string
  | Auth_signOut
  | Profiles_select string
  | Profiles_update 'u string

section \<open>The session manager (\<^verbatim>\<open>auth-context.tsx\<close>)\<close>

record 'p AuthState =
  user :: "User option"
  profile :: "'p option"
  session :: "Session option"
  loading :: bool
  error :: "string option"
  isAuthenticated :: bool

text \<open>The argument of \<^verbatim>\<open>useState\<close>.\<close>

definition initial_state :: "'p AuthState" where
  "initial_state =
     \<lparr>user = None, profile = None, session = None, loading = True, error = None,
      isAuthenticated = False\<rparr>"

text \<open>
  The two object literals that the source passes to \<^verbatim>\<open>setAuthState\<close> in
  \<^verbatim>\<open>initializeAuth\<close>, the notification handler, \<^verbatim>\<open>signIn\<close>, \<^verbatim>\<open>signUp\<close> and
  \<^verbatim>\<open>signOut\<close>.
\<close>

definition authenticated_state :: "User \<Rightarrow> 'p option \<Rightarrow> Session \<Rightarrow> 'p AuthState" where
  "authenticated_state u p s =
     \<lparr>user = Some u, profile = p, session = Some s, loading = False, error = None,
      isAuthenticated = True\<rparr>"

definition signed_out_state :: "'p AuthState" where
  "signed_out_state =
     \<lparr>user = None, profile = None, session = None, loading = False, error = None,
      isAuthenticated = False\<rparr>"

text \<open>
  \<^verbatim>\<open>fetchProfile\<close>: one select on \<^verbatim>\<open>profiles\<close>; a returned error is thrown, a
  rejection passes through the \<^verbatim>\<open>catch\<close> that logs and rethrows.
\<close>

definition fetchProfile ::
  "('p, 'u) supabase \<Rightarrow> string \<Rightarrow> 'u call list \<times> (thrown + 'p option)" where
  "fetchProfile sb userId =
     ([Profiles_select userId],
      (case profiles_select sb userId of
         Rejects err \<Rightarrow> Inl err
       | Resolves (data, err) \<Rightarrow> (case err of Some e \<Rightarrow> Inl e | None \<Rightarrow> Inr data)))"

text \<open>The \<^verbatim>\<open>catch\<close> block of \<^verbatim>\<open>initializeAuth\<close>, a functional update of the state.\<close>

definition initializeAuth_catch :: "thrown \<Rightarrow> 'p AuthState \<Rightarrow> 'p AuthState" where
  "initializeAuth_catch err prev =
     prev\<lparr>loading := False,
          error := Some (if instanceof_Error err then message err
                         else ''Authentication initialization failed''),
          isAuthenticated := False\<rparr>"

definition initializeAuth ::
  "('p, 'u) supabase \<Rightarrow> 'p AuthState \<Rightarrow> 'u call list \<times> 'p AuthState" where
  "initializeAuth sb prev =
     (case auth_getSession sb of
        Rejects err \<Rightarrow> ([Auth_getSession], initializeAuth_catch err prev)
      | Resolves (sess, sessionError) \<Rightarrow>
          (case sessionError of
             Some err \<Rightarrow> ([Auth_getSession], initializeAuth_catch err prev)
           | None \<Rightarrow>
               (case sess of
                  Some s \<Rightarrow>
                    (case fetchProfile sb (id' (session_user s)) of
                       (cs, Inl err) \<Rightarrow> (Auth_getSession # cs, initializeAuth_catch err prev)
                     | (cs, Inr p) \<Rightarrow>
                         (Auth_getSession # cs, authenticated_state (session_user s) p s))
                | None \<Rightarrow> ([Auth_getSession], signed_out_state))))"

text \<open>
  The callback given to \<^verbatim>\<open>onAuthStateChange\<close>. It has no \<^verbatim>\<open>try\<close>: when
  \<^verbatim>\<open>fetchProfile\<close> throws, the callback's promise rejects and \<^verbatim>\<open>setAuthState\<close> is
  not reached.
\<close>

definition onAuthStateChange ::
  "('p, 'u) supabase \<Rightarrow> Session option \<Rightarrow> 'p AuthState \<Rightarrow>
     'u call list \<times> (thrown + unit) \<times> 'p AuthState" where
  "onAuthStateChange sb sess prev =
     (case sess of
        Some s \<Rightarrow>
          (case fetchProfile sb (id' (session_user s)) of
             (cs, Inl err) \<Rightarrow> (cs, Inl err, prev)
           | (cs, Inr p) \<Rightarrow> (cs, Inr (), authenticated_state (session_user s) p s))
      | None \<Rightarrow> ([], Inr (), signed_out_state))"

definition signIn_catch :: "thrown \<Rightarrow> 'p AuthState \<Rightarrow> (thrown + unit) \<times> 'p AuthState" where
  "signIn_catch err prev =
     (Inl err,
      prev\<lparr>error := Some (if instanceof_AuthError err then message err
                          else ''Failed to sign in. Please check your credentials and try again.''),
           isAuthenticated := False\<rparr>)"

definition signIn ::
  "('p, 'u) supabase \<Rightarrow> string \<Rightarrow> string \<Rightarrow> 'p AuthState \<Rightarrow>
     'u call list \<times> (thrown + unit) \<times> 'p AuthState" where
  "signIn sb email_in password prev =
     (case auth_signInWithPassword sb email_in password of
        Rejects err \<Rightarrow> ([Auth_signInWithPassword email_in password], signIn_catch err prev)
      | Resolves (sess, err_opt) \<Rightarrow>
          (case err_opt of
             Some err \<Rightarrow> ([Auth_signInWithPassword email_in password], signIn_catch err prev)
           | None \<Rightarrow>
               (case sess of
                  None \<Rightarrow>
                    ([Auth_signInWithPassword email_in password],
                     signIn_catch (new_Error ''No session created after sign in'') prev)
                | Some s \<Rightarrow>
                    (case fetchProfile sb (id' (session_user s)) of
                       (cs, Inl err) \<Rightarrow>
                         (Auth_signInWithPassword email_in password # cs, signIn_catch err prev)
                     | (cs, Inr p) \<Rightarrow>
                         (Auth_signInWithPassword email_in password # cs, Inr (),
                          authenticated_state (session_user s) p s)))))"

definition signUp_catch :: "thrown \<Rightarrow> 'p AuthState \<Rightarrow> (thrown + unit) \<times> 'p AuthState" where
  "signUp_catch err prev =
     (Inl err,
      prev\<lparr>error := Some (if instanceof_AuthError err then message err
                          else ''Registration failed. Please try again.''),
           isAuthenticated := False\<rparr>)"

text \<open>
  \<^verbatim>\<open>data.user.id\<close> with \<^verbatim>\<open>data.user\<close> null raises a \<^verbatim>\<open>TypeError\<close>, an \<open>Error\<close>
  instance; the message is the one that Node and Chrome give.
\<close>

definition TypeError_null :: thrown where
  "TypeError_null =
     \<lparr>cls = Error, message = ''Cannot read properties of null (reading 'id')'',
      code = None\<rparr>"

definition signUp ::
  "('p, 'u) supabase \<Rightarrow> string \<Rightarrow> string \<Rightarrow> string \<Rightarrow> 'p AuthState \<Rightarrow>
     'u call list \<times> (thrown + unit) \<times> 'p AuthState" where
  "signUp sb email_in password username prev =
     (case auth_signUp sb email_in password username of
        Rejects err \<Rightarrow> ([Auth_signUp email_in password username], signUp_catch err prev)
      | Resolves ((data_user, data_session), err_opt) \<Rightarrow>
          (case err_opt of
             Some err \<Rightarrow> ([Auth_signUp email_in password username], signUp_catch err prev)
           | None \<Rightarrow>
               (case data_session of
                  None \<Rightarrow>
                    ([Auth_signUp email_in password username],
                     signUp_catch
                       (new_Error ''Email confirmation required. Please check your inbox.'') prev)
                | Some s \<Rightarrow>
                    (case data_user of
                       None \<Rightarrow>
                         ([Auth_signUp email_in password username],
                          signUp_catch TypeError_null prev)
                     | Some u \<Rightarrow>
                         (case fetchProfile sb (id' u) of
                            (cs, Inl err) \<Rightarrow>
                              (Auth_signUp email_in password username # cs, signUp_catch err prev)
                          | (cs, Inr p) \<Rightarrow>
                              (Auth_signUp email_in password username # cs, Inr (),
                               authenticated_state u p s))))))"

definition signOut_catch :: "thrown \<Rightarrow> 'p AuthState \<Rightarrow> (thrown + unit) \<times> 'p AuthState" where
  "signOut_catch err prev =
     (Inl err,
      prev\<lparr>error := Some (if instanceof_AuthError err then message err
                          else ''Failed to sign out. Please try again.'')\<rparr>)"

definition signOut ::
  "('p, 'u) supabase \<Rightarrow> 'p AuthState \<Rightarrow> 'u call list \<times> (thrown + unit) \<times> 'p AuthState" where
  "signOut sb prev =
     (case auth_signOut sb of
        Rejects err \<Rightarrow> ([Auth_signOut], signOut_catch err prev)
      | Resolves err_opt \<Rightarrow>
          (case err_opt of
             Some err \<Rightarrow> ([Auth_signOut], signOut_catch err prev)
           | None \<Rightarrow> ([Auth_signOut], Inr (), signed_out_state)))"

definition updateProfile_catch ::
  "thrown \<Rightarrow> 'p AuthState \<Rightarrow> (thrown + unit) \<times> 'p AuthState" where
  "updateProfile_catch err prev =
     (Inl err,
      prev\<lparr>error := Some (if instanceof_Error err then message err
                          else ''Failed to update profile. Please try again.'')\<rparr>)"

text \<open>
  \<^verbatim>\<open>updateProfile\<close> reads \<^verbatim>\<open>authState.user\<close> from the render it was created in
  (\<open>authState\<close>), while its \<^verbatim>\<open>setAuthState\<close> calls update the state current at that
  moment (\<open>prev\<close>). The guard on \<^verbatim>\<open>authState.user\<close> stands before the \<^verbatim>\<open>try\<close>.
\<close>

definition updateProfile ::
  "('p, 'u) supabase \<Rightarrow> 'u \<Rightarrow> 'p AuthState \<Rightarrow> 'p AuthState \<Rightarrow>
     'u call list \<times> (thrown + unit) \<times> 'p AuthState" where
  "updateProfile sb updates authState prev =
     (case user authState of
        None \<Rightarrow> ([], Inl (new_Error ''No authenticated user''), prev)
      | Some u \<Rightarrow>
          (case profiles_update sb updates (id' u) of
             Rejects err \<Rightarrow> ([Profiles_update updates (id' u)], updateProfile_catch err prev)
           | Resolves (data, err_opt) \<Rightarrow>
               (case err_opt of
                  Some err \<Rightarrow> ([Profiles_update updates (id' u)], updateProfile_catch err prev)
                | None \<Rightarrow>
                    ([Profiles_update updates (id' u)], Inr (),
                     prev\<lparr>profile := data, error := None\<rparr>))))"

definition clearError :: "'p AuthState \<Rightarrow> 'p AuthState" where
  "clearError prev = prev\<lparr>error := None\<rparr>"

section \<open>The route guard (\<^verbatim>\<open>ProtectedRoute.tsx\<close>)\<close>

text \<open>
  The condition of the expiry check,
  \<^verbatim>\<open>session.expires_at && Date.now() / 1000 >= session.expires_at\<close>.
  \<open>now_ms\<close> is the value of \<^verbatim>\<open>Date.now()\<close>, an integral number of milliseconds.
  The left operand of \<^verbatim>\<open>&&\<close> is falsy when \<^verbatim>\<open>expires_at\<close> is absent and when it
  is the number 0. The division is taken in the reals: the double-precision quotient
  compares with an integral \<^verbatim>\<open>expires_at\<close> below \<open>2 ^ 42\<close> in the same way.
\<close>

definition session_expired :: "int \<Rightarrow> Session \<Rightarrow> bool" where
  "session_expired now_ms s =
     (case expires_at s of
        None \<Rightarrow> False
      | Some e \<Rightarrow> e \<noteq> 0 \<and> real_of_int e \<le> real_of_int now_ms / 1000)"

datatype rendered =
    Spinner
  | ErrorPage string
  | NavigateLogin string
  | Children

text \<open>\<^verbatim>\<open>if (error)\<close> on a \<^verbatim>\<open>string | null\<close>: null and the empty string are falsy.\<close>

definition ProtectedRoute :: "int \<Rightarrow> 'p AuthState \<Rightarrow> rendered" where
  "ProtectedRoute now_ms st =
     (if loading st then Spinner
      else if error st \<noteq> None \<and> error st \<noteq> Some [] then ErrorPage (the (error st))
      else if \<not> isAuthenticated st \<or> session st = None
        then NavigateLogin ''Please sign in to access this page''
      else if session_expired now_ms (the (session st))
        then NavigateLogin ''Your session has expired. Please sign in again.''
      else Children)"

section \<open>The gallery service (\<^verbatim>\<open>gallery-service.ts\<close>)\<close>

text \<open>
  The regular expression \<^verbatim>\<open>/^[a-z0-9-]+$/\<close>: \<open>category_char\<close> is the character class,
  and \<^verbatim>\<open>^...+$\<close> without flags asks for the whole input to be one or more such
  characters. A JavaScript string is a sequence of UTF-16 units; a \<open>string\<close> here is a
  sequence of bytes, and no byte of a character outside ASCII is in the class.
\<close>

definition category_char :: "char \<Rightarrow> bool" where
  "category_char c =
     ((97 \<le> (of_char c :: nat) \<and> (of_char c :: nat) \<le> 122)
      \<or> (48 \<le> (of_char c :: nat) \<and> (of_char c :: nat) \<le> 57)
      \<or> (of_char c :: nat) = 45)"

definition category_regex_test :: "string \<Rightarrow> bool" where
  "category_regex_test cat = (cat \<noteq> [] \<and> list_all category_char cat)"

record gallery_row =
  user_id :: string
  name :: string
  description :: string
  category :: string
  is_public :: bool

text \<open>
  The Supabase client as far as \<^verbatim>\<open>createGallery\<close> and \<^verbatim>\<open>getGalleryByCategory\<close>
  call it. \<open>'g\<close> is the \<^verbatim>\<open>Gallery\<close> row type, declared outside the modelled sources.
  Of the row selected by \<^verbatim>\<open>select('id')\<close> only the id is there.
\<close>

record 'g supabase_galleries =
  galleries_select_id :: "string \<Rightarrow> (string option \<times> thrown option) promise"
  auth_getUser :: "(User option \<times> thrown option) promise"
  galleries_insert :: "gallery_row \<Rightarrow> ('g option \<times> thrown option) promise"
  galleries_select :: "string \<Rightarrow> ('g option \<times> thrown option) promise"

datatype gallery_call =
    Galleries_select_id string
  | Auth_getUser
  | Galleries_insert gallery_row
  | Galleries_select string

definition category_exists_message :: string where
  "category_exists_message =
     ''A gallery with this category already exists. Please choose a different category.''"

text \<open>
  \<^verbatim>\<open>createGallery\<close>. The first query keeps only \<^verbatim>\<open>data\<close> and ignores a returned
  error; the \<^verbatim>\<open>catch\<close> around the insert logs and rethrows.
\<close>

definition createGallery ::
  "'g supabase_galleries \<Rightarrow> string \<Rightarrow> string \<Rightarrow> string \<Rightarrow> bool \<Rightarrow>
     gallery_call list \<times> (thrown + 'g option)" where
  "createGallery sb nm descr cat isPublic =
     (if \<not> category_regex_test cat
      then ([], Inl (new_Error
                      ''Category can only contain lowercase letters, numbers, and hyphens''))
      else
        (case galleries_select_id sb cat of
           Rejects err \<Rightarrow> ([Galleries_select_id cat], Inl err)
         | Resolves (existingGallery, _) \<Rightarrow>
             (if existingGallery \<noteq> None
              then ([Galleries_select_id cat], Inl (new_Error category_exists_message))
              else
                (case auth_getUser sb of
                   Rejects err \<Rightarrow> ([Galleries_select_id cat, Auth_getUser], Inl err)
                 | Resolves (usr, _) \<Rightarrow>
                     (case usr of
                        None \<Rightarrow>
                          ([Galleries_select_id cat, Auth_getUser],
                           Inl (new_Error ''User must be logged in to create a gallery''))
                      | Some u \<Rightarrow>
                          (let row = \<lparr>user_id = id' u, name = nm, description = descr,
                                      category = cat, is_public = isPublic\<rparr>;
                               cs = [Galleries_select_id cat, Auth_getUser, Galleries_insert row]
                           in case galleries_insert sb row of
                                Rejects err \<Rightarrow> (cs, Inl err)
                              | Resolves (data, err_opt) \<Rightarrow>
                                  (case err_opt of
                                     Some err \<Rightarrow>
                                       (if code err = Some ''23505''
                                        then (cs, Inl (new_Error category_exists_message))
                                        else (cs, Inl err))
                                   | None \<Rightarrow> (cs, Inr data))))))))"

definition getGalleryByCategory ::
  "'g supabase_galleries \<Rightarrow> string \<Rightarrow> gallery_call list \<times> (thrown + 'g option)" where
  "getGalleryByCategory sb cat =
     ([Galleries_select cat],
      (case galleries_select sb cat of
         Rejects err \<Rightarrow> Inl err
       | Resolves (data, err_opt) \<Rightarrow>
           (case err_opt of
              Some err \<Rightarrow> (if code err = Some ''PGRST116'' then Inr None else Inl err)
            | None \<Rightarrow> Inr data)))"

section \<open>Runs of the session manager\<close>

text \<open>
  Everything that writes the state: the start-up restoration, a provider notification, the
  four operations and \<^verbatim>\<open>clearError\<close>. Each event carries the backend as it answers at
  that moment; \<open>UpdateProfile\<close> also carries the state of the render whose
  \<^verbatim>\<open>updateProfile\<close> closure is called, which may be any state.
\<close>

datatype ('p, 'u) event =
    InitializeAuth "('p, 'u) supabase"
  | AuthStateChange "('p, 'u) supabase" "Session option"
  | SignIn "('p, 'u) supabase" string string
  | SignUp "('p, 'u) supabase" string string string
  | SignOut "('p, 'u) supabase"
  | UpdateProfile "('p, 'u) supabase" 'u "'p AuthState"
  | ClearError

fun step :: "('p, 'u) event \<Rightarrow> 'p AuthState \<Rightarrow> 'p AuthState" where
  "step (InitializeAuth sb) st = snd (initializeAuth sb st)"
| "step (AuthStateChange sb sess) st = snd (snd (onAuthStateChange sb sess st))"
| "step (SignIn sb em pw) st = snd (snd (signIn sb em pw st))"
| "step (SignUp sb em pw un) st = snd (snd (signUp sb em pw un st))"
| "step (SignOut sb) st = snd (snd (signOut sb st))"
| "step (UpdateProfile sb ups authState) st = snd (snd (updateProfile sb ups authState st))"
| "step ClearError st = clearError st"

fun run_from :: "'p AuthState \<Rightarrow> ('p, 'u) event list \<Rightarrow> 'p AuthState" where
  "run_from st [] = st"
| "run_from st (ev # evs) = run_from (step ev st) evs"

definition run :: "('p, 'u) event list \<Rightarrow> 'p AuthState" where
  "run evs = run_from initial_state evs"

text \<open>
  The invariant in the words of the specification: \<open>isAuthenticated\<close> is true if and only
  if both Identity and Session are present and the Session is not expired (at the time
  \<open>now_ms\<close> of looking).
\<close>

definition spec_isAuthenticated_invariant :: "int \<Rightarrow> 'p AuthState \<Rightarrow> bool" where
  "spec_isAuthenticated_invariant now_ms st =
     (isAuthenticated st \<longleftrightarrow>
        (user st \<noteq> None \<and>
         (case session st of None \<Rightarrow> False | Some s \<Rightarrow> \<not> session_expired now_ms s)))"

section \<open>Concrete backends\<close>

text \<open>
  The scenario of the specification: user \<open>u1\<close> with e-mail \<open>a@b.com\<close>, a session
  that expires at second 3600, the profile of \<open>alice\<close>. Profiles and profile updates are
  strings here.
\<close>

definition alice :: User where
  "alice = \<lparr>id' = ''u1'', email = ''a@b.com''\<rparr>"

definition alice_session :: Session where
  "alice_session = \<lparr>session_user = alice, expires_at = Some 3600\<rparr>"

definition invalid_credentials :: thrown where
  "invalid_credentials =
     \<lparr>cls = AuthError, message = ''Invalid login credentials'', code = None\<rparr>"

definition store_unreachable :: thrown where
  "store_unreachable = \<lparr>cls = Error, message = ''Failed to fetch'', code = None\<rparr>"

text \<open>A backend on which every call succeeds, and one on which every call fails.\<close>

definition backend_ok :: "(string, string) supabase" where
  "backend_ok =
     \<lparr>auth_getSession = Resolves (Some alice_session, None),
      auth_signInWithPassword = (\<lambda>em pw. Resolves (Some alice_session, None)),
      auth_signUp = (\<lambda>em pw un. Resolves ((Some alice, Some alice_session), None)),
      auth_signOut = Resolves None,
      profiles_select = (\<lambda>uid. Resolves (Some ''alice'', None)),
      profiles_update = (\<lambda>ups uid. Resolves (Some ups, None))\<rparr>"

definition backend_failing :: "(string, string) supabase" where
  "backend_failing =
     \<lparr>auth_getSession = Resolves (None, Some invalid_credentials),
      auth_signInWithPassword = (\<lambda>em pw. Resolves (None, Some invalid_credentials)),
      auth_signUp = (\<lambda>em pw un. Resolves ((None, None), Some invalid_credentials)),
      auth_signOut = Resolves (Some invalid_credentials),
      profiles_select = (\<lambda>uid. Rejects store_unreachable),
      profiles_update = (\<lambda>ups uid. Rejects store_unreachable)\<rparr>"

text \<open>
  A gallery store in which no row has the requested category (the store client reports
  that with code \<open>PGRST116\<close>), and one that denies access. Gallery rows are strings here.
\<close>

definition no_rows :: thrown where
  "no_rows =
     \<lparr>cls = NotAnError, message = ''JSON object requested, multiple (or no) rows returned'',
      code = Some ''PGRST116''\<rparr>"

definition permission_denied :: thrown where
  "permission_denied =
     \<lparr>cls = NotAnError, message = ''permission denied for table galleries'',
      code = Some ''42501''\<rparr>"

definition galleries_empty :: "string supabase_galleries" where
  "galleries_empty =
     \<lparr>galleries_select_id = (\<lambda>cat. Resolves (None, Some no_rows)),
      auth_getUser = Resolves (Some alice, None),
      galleries_insert = (\<lambda>row. Resolves (Some (name row), None)),
      galleries_select = (\<lambda>cat. Resolves (None, Some no_rows))\<rparr>"

definition galleries_denied :: "string supabase_galleries" where
  "galleries_denied =
     \<lparr>galleries_select_id = (\<lambda>cat. Resolves (None, Some permission_denied)),
      auth_getUser = Resolves (Some alice, None),
      galleries_insert = (\<lambda>row. Resolves (None, Some permission_denied)),
      galleries_select = (\<lambda>cat. Resolves (None, Some permission_denied))\<rparr>"

text \<open>
  A backend that has no session to restore, and a provider error whose message is the
  empty string.
\<close>

definition backend_no_session :: "(string, string) supabase" where
  "backend_no_session = backend_ok\<lparr>auth_getSession := Resolves (None, None)\<rparr>"

definition empty_auth_error :: thrown where
  "empty_auth_error = \<lparr>cls = AuthError, message = [], code = None\<rparr>"

text \<open>
  A backend whose profile store cannot be reached, and one whose profile select resolves
  with neither a row nor an error.
\<close>

definition backend_profile_down :: "(string, string) supabase" where
  "backend_profile_down = backend_ok\<lparr>profiles_select := \<lambda>uid. Rejects store_unreachable\<rparr>"


section \<open>What the flag guarantees\<close>

text \<open>
  The relation between the stored flag and the stored user and session that every write
  of the state keeps: user and session are present together, and the flag is set only
  when they are.
\<close>

definition flag_invariant :: "'p AuthState \<Rightarrow> bool" where
  "flag_invariant st =
     ((user st = None \<longleftrightarrow> session st = None) \<and> (isAuthenticated st \<longrightarrow> user st \<noteq> None))"

section \<open>Provider notifications\<close>

text \<open>
  C6. A provider notification that delivers no session puts the state into the fully
  signed-out state whatever the state was before (also right after a successful sign-in):
  user, profile and session are cleared and \<open>isAuthenticated\<close> is false. The handler
  issues no backend call and does not fail.
\<close>

theorem notification_null_signs_out:
  "onAuthStateChange sb None prev =
     ([], Inr (),
      \<lparr>user = None, profile = None, session = None, loading = False, error = None,
       isAuthenticated = False\<rparr>)"
  by (simp add: onAuthStateChange_def signed_out_state_def)

section \<open>Sign-out\<close>

text \<open>
  C8. When the provider's sign-out succeeds, \<open>signOut\<close> resets the state to the empty
  signed-out state (user, profile, session and error cleared) whatever it was. When the
  provider's sign-out fails, by rejecting or by returning an error, \<open>signOut\<close> changes
  the error field only, so user, profile and session stay as they were, and the failure
  is raised to the caller.
\<close>

theorem signOut_frame:
  "(auth_signOut sb = Resolves None \<longrightarrow>
      signOut sb prev =
        ([Auth_signOut], Inr (),
         \<lparr>user = None, profile = None, session = None, loading = False, error = None,
          isAuthenticated = False\<rparr>))
   \<and> (auth_signOut sb = Rejects err \<or> auth_signOut sb = Resolves (Some err) \<longrightarrow>
        signOut sb prev =
          ([Auth_signOut], Inl err,
           prev\<lparr>error := Some (if instanceof_AuthError err then message err
                               else ''Failed to sign out. Please try again.'')\<rparr>))"
  by (auto simp add: signOut_def signOut_catch_def signed_out_state_def)

theorem signOut_frame_witness:
  "auth_signOut backend_ok = Resolves None
   \<and> signOut backend_ok (authenticated_state alice (Some ''alice'') alice_session) =
       ([Auth_signOut], Inr (),
        \<lparr>user = None, profile = None, session = None, loading = False, error = None,
         isAuthenticated = False\<rparr>)
   \<and> auth_signOut backend_failing = Resolves (Some invalid_credentials)
   \<and> signOut backend_failing (authenticated_state alice (Some ''alice'') alice_session) =
       ([Auth_signOut], Inl invalid_credentials,
        \<lparr>user = Some alice, profile = Some ''alice'', session = Some alice_session,
         loading = False, error = Some ''Invalid login credentials'', isAuthenticated = True\<rparr>)"
  using signOut_frame [where sb = backend_ok and err = invalid_credentials
      and prev = "authenticated_state alice (Some ''alice'') alice_session"]
    signOut_frame [where sb = backend_failing and err = invalid_credentials
      and prev = "authenticated_state alice (Some ''alice'') alice_session"]
  by (simp add: backend_ok_def backend_failing_def authenticated_state_def
      instanceof_AuthError_def invalid_credentials_def)

section \<open>Restoration at start-up\<close>




section \<open>Profile update\<close>

text \<open>
  C4, as stated: \<open>updateProfile\<close> without a user fails with the precondition error and
  also writes a message into the error field of the state. The second half does not
  hold: the guard throws before the \<^verbatim>\<open>try\<close>, so no \<^verbatim>\<open>setAuthState\<close> runs and the
  error field stays null.
\<close>

theorem updateProfile_without_user_counterexample:
  "fst (snd (updateProfile backend_ok ''bob'' signed_out_state signed_out_state)) =
     Inl (new_Error ''No authenticated user'')
   \<and> error (snd (snd (updateProfile backend_ok ''bob'' signed_out_state signed_out_state))) = None"
  by (simp add: updateProfile_def signed_out_state_def)

text \<open>
  C4, amended. \<open>updateProfile\<close> called from a render in whose state no user is present
  (\<open>authState\<close>, the state its closure holds, which need not be the state current at the
  call) fails at once with the error \<open>No authenticated user\<close>, issues no backend call,
  and leaves the current state, the error field included, exactly as it was.
\<close>

theorem updateProfile_without_user:
  "user authState = None \<Longrightarrow>
     updateProfile sb ups authState prev = ([], Inl (new_Error ''No authenticated user''), prev)"
  by (simp add: updateProfile_def)

theorem updateProfile_without_user_witness:
  "user (initial_state :: string AuthState) = None
   \<and> updateProfile backend_ok ''bob'' initial_state signed_out_state =
       ([], Inl \<lparr>cls = Error, message = ''No authenticated user'', code = None\<rparr>,
        \<lparr>user = None, profile = None, session = None, loading = False, error = None,
         isAuthenticated = False\<rparr>)"
  using updateProfile_without_user [where authState = "initial_state :: string AuthState"
      and sb = backend_ok and ups = "''bob''" and prev = signed_out_state]
  by (simp add: initial_state_def signed_out_state_def new_Error_def)

section \<open>A notification whose profile fetch fails\<close>

text \<open>
  C2. The code at a notification whose profile fetch fails: the state is signed in as
  \<open>alice\<close>, the provider delivers her session again (a token refresh) and the profile
  store cannot be reached. The handler's promise rejects and the state stays as it was,
  signed in and without an error. \<open>initializeAuth\<close> on the same backend and state does
  catch the failure: it sets the error and clears \<open>isAuthenticated\<close>.
\<close>

theorem notification_profile_failure_keeps_state:
  "onAuthStateChange (backend_ok\<lparr>profiles_select := \<lambda>uid. Rejects store_unreachable\<rparr>)
       (Some alice_session) (authenticated_state alice (Some ''alice'') alice_session) =
     ([Profiles_select ''u1''], Inl store_unreachable,
      \<lparr>user = Some alice, profile = Some ''alice'', session = Some alice_session,
       loading = False, error = None, isAuthenticated = True\<rparr>)
   \<and> snd (initializeAuth (backend_ok\<lparr>profiles_select := \<lambda>uid. Rejects store_unreachable\<rparr>)
            (authenticated_state alice (Some ''alice'') alice_session)) =
       \<lparr>user = Some alice, profile = Some ''alice'', session = Some alice_session,
        loading = False, error = Some ''Failed to fetch'', isAuthenticated = False\<rparr>"
  by (simp add: onAuthStateChange_def initializeAuth_def initializeAuth_catch_def
      fetchProfile_def backend_ok_def authenticated_state_def alice_session_def alice_def
      instanceof_Error_def store_unreachable_def)

section \<open>Gallery service\<close>

text \<open>
  C9. For every category string that the regular expression \<^verbatim>\<open>^[a-z0-9-]+$\<close> does not
  match, \<open>createGallery\<close> raises the category-format error and has issued no call to the
  store.
\<close>

theorem createGallery_rejects_bad_category:
  "\<not> category_regex_test cat \<Longrightarrow>
     createGallery sb nm descr cat isPublic =
       ([], Inl (new_Error
                  ''Category can only contain lowercase letters, numbers, and hyphens''))"
  by (simp add: createGallery_def)

theorem createGallery_rejects_bad_category_witness:
  "\<not> category_regex_test ''Invalid Category!''
   \<and> createGallery galleries_empty ''Cats'' ''All my cats'' ''Invalid Category!'' True =
       ([], Inl \<lparr>cls = Error,
                 message = ''Category can only contain lowercase letters, numbers, and hyphens'',
                 code = None\<rparr>)"
  using createGallery_rejects_bad_category [where cat = "''Invalid Category!''"
      and sb = galleries_empty and nm = "''Cats''" and descr = "''All my cats''"
      and isPublic = True]
  by (simp add: category_regex_test_def category_char_def new_Error_def)

text \<open>
  C10. When the store answers the query of \<open>getGalleryByCategory\<close> with an error whose
  code is \<open>PGRST116\<close> (no row matches), the function returns null; when the error has
  any other code, the function raises that error.
\<close>

theorem getGalleryByCategory_no_row:
  "(galleries_select sb cat = Resolves (data, Some err) \<and> code err = Some ''PGRST116'' \<longrightarrow>
      getGalleryByCategory sb cat = ([Galleries_select cat], Inr None))
   \<and> (galleries_select sb cat = Resolves (data, Some err) \<and> code err \<noteq> Some ''PGRST116'' \<longrightarrow>
        getGalleryByCategory sb cat = ([Galleries_select cat], Inl err))"
  by (simp add: getGalleryByCategory_def)

theorem getGalleryByCategory_no_row_witness:
  "galleries_select galleries_empty ''cats'' = Resolves (None, Some no_rows)
   \<and> code no_rows = Some ''PGRST116''
   \<and> getGalleryByCategory galleries_empty ''cats'' = ([Galleries_select ''cats''], Inr None)
   \<and> galleries_select galleries_denied ''cats'' = Resolves (None, Some permission_denied)
   \<and> code permission_denied \<noteq> Some ''PGRST116''
   \<and> getGalleryByCategory galleries_denied ''cats'' =
       ([Galleries_select ''cats''], Inl permission_denied)"
  using getGalleryByCategory_no_row [where sb = galleries_empty and cat = "''cats''"
      and data = None and err = no_rows]
    getGalleryByCategory_no_row [where sb = galleries_denied and cat = "''cats''"
      and data = None and err = permission_denied]
  by (simp add: galleries_empty_def galleries_denied_def no_rows_def permission_denied_def)

section \<open>The flag \<open>isAuthenticated\<close> over all runs\<close>

lemma flag_invariant_step: "flag_invariant st \<Longrightarrow> flag_invariant (step ev st)"
proof (cases ev)
  case (InitializeAuth sb)
  assume "flag_invariant st"
  then show ?thesis unfolding InitializeAuth
    by (auto simp add: flag_invariant_def initializeAuth_def initializeAuth_catch_def
        authenticated_state_def signed_out_state_def fetchProfile_def
        split: promise.splits option.splits sum.splits prod.splits)
next
  case (AuthStateChange sb sess)
  assume "flag_invariant st"
  then show ?thesis unfolding AuthStateChange
    by (auto simp add: flag_invariant_def onAuthStateChange_def
        authenticated_state_def signed_out_state_def fetchProfile_def
        split: promise.splits option.splits sum.splits prod.splits)
next
  case (SignIn sb em pw)
  assume "flag_invariant st"
  then show ?thesis unfolding SignIn
    by (auto simp add: flag_invariant_def signIn_def signIn_catch_def
        authenticated_state_def fetchProfile_def
        split: promise.splits option.splits sum.splits prod.splits)
next
  case (SignUp sb em pw un)
  assume "flag_invariant st"
  then show ?thesis unfolding SignUp
    by (auto simp add: flag_invariant_def signUp_def signUp_catch_def
        authenticated_state_def fetchProfile_def
        split: promise.splits option.splits sum.splits prod.splits)
next
  case (SignOut sb)
  assume "flag_invariant st"
  then show ?thesis unfolding SignOut
    by (auto simp add: flag_invariant_def signOut_def signOut_catch_def signed_out_state_def
        split: promise.splits option.splits)
next
  case (UpdateProfile sb ups authState)
  assume "flag_invariant st"
  then show ?thesis unfolding UpdateProfile
    by (auto simp add: flag_invariant_def updateProfile_def updateProfile_catch_def
        split: promise.splits option.splits)
next
  case ClearError
  assume "flag_invariant st"
  then show ?thesis unfolding ClearError
    by (auto simp add: flag_invariant_def clearError_def)
qed

lemma flag_invariant_run_from: "flag_invariant st \<Longrightarrow> flag_invariant (run_from st evs)"
  by (induction evs arbitrary: st) (simp_all add: flag_invariant_step)

text \<open>
  C1, as stated: in every reachable state \<open>isAuthenticated\<close> holds exactly when user and
  session are present and the session is not expired. Two runs refute it. After a
  successful sign-in, a failing second sign-in clears the flag and keeps user and session
  (looked at one second after the epoch, the session, expiring at second 3600, is not
  expired). And a notification that delivers that session sets the flag, which is still
  set when the state is looked at at second 4000, after the expiry.
\<close>

theorem isAuthenticated_counterexample:
  "\<not> spec_isAuthenticated_invariant 1000
        (run [InitializeAuth backend_no_session,
              SignIn backend_ok ''a@b.com'' ''validpass'',
              SignIn backend_failing ''a@b.com'' ''wrongpass''])
   \<and> \<not> spec_isAuthenticated_invariant 4000000
        (run [InitializeAuth backend_no_session,
              AuthStateChange backend_ok (Some alice_session)])"
  by (simp add: spec_isAuthenticated_invariant_def run_def initial_state_def
      backend_no_session_def backend_ok_def backend_failing_def
      initializeAuth_def signIn_def signIn_catch_def onAuthStateChange_def fetchProfile_def
      authenticated_state_def signed_out_state_def session_expired_def alice_session_def)

text \<open>
  C1, amended. In every state that a run of the session manager reaches (any sequence of
  restore, notifications, sign-in, sign-up, sign-out, profile update and clearing the
  error, against any backend), \<open>isAuthenticated\<close> being true implies that user and
  session are both present, and user and session are present together or absent
  together. Expiry of the session plays no part in the flag.
\<close>

theorem isAuthenticated_implies_user_and_session:
  "(isAuthenticated (run evs) \<longrightarrow> user (run evs) \<noteq> None \<and> session (run evs) \<noteq> None)
   \<and> (user (run evs) = None \<longleftrightarrow> session (run evs) = None)"
proof -
  have "flag_invariant (initial_state :: 'a AuthState)"
    by (simp add: flag_invariant_def initial_state_def)
  then have "flag_invariant (run evs)"
    unfolding run_def by (rule flag_invariant_run_from)
  then show ?thesis
    by (auto simp add: flag_invariant_def)
qed

theorem isAuthenticated_implies_user_and_session_witness:
  "isAuthenticated (run [InitializeAuth backend_no_session,
                         SignIn backend_ok ''a@b.com'' ''validpass''])
   \<and> user (run [InitializeAuth backend_no_session,
                 SignIn backend_ok ''a@b.com'' ''validpass'']) = Some alice
   \<and> session (run [InitializeAuth backend_no_session,
                    SignIn backend_ok ''a@b.com'' ''validpass'']) = Some alice_session"
  using isAuthenticated_implies_user_and_session
    [where evs = "[InitializeAuth backend_no_session,
                   SignIn backend_ok ''a@b.com'' ''validpass'']"]
  by (simp add: run_def initial_state_def backend_no_session_def backend_ok_def
      initializeAuth_def signIn_def fetchProfile_def authenticated_state_def
      signed_out_state_def alice_session_def)

section \<open>The expiry check of the route guard\<close>

text \<open>
  C5, as stated: the check reports expired exactly when the current time is at or after
  \<open>expires_at\<close>. A session whose \<open>expires_at\<close> is 0, looked at one second after the
  epoch, has its expiry strictly in the past and is not reported expired, because the
  check first tests \<open>expires_at\<close> for truthiness.
\<close>

theorem session_expired_counterexample:
  "expires_at \<lparr>session_user = alice, expires_at = Some 0\<rparr> = Some 0
   \<and> real_of_int 0 < real_of_int 1000 / 1000
   \<and> \<not> session_expired 1000 \<lparr>session_user = alice, expires_at = Some 0\<rparr>"
  by (simp add: session_expired_def)

text \<open>
  C5, amended. For a session whose \<open>expires_at\<close> is present and not 0, the check reports
  expired exactly when the current time is at or after \<open>expires_at\<close> (in milliseconds:
  \<open>expires_at * 1000 \<le> now_ms\<close>), so an expiry strictly in the past and the boundary
  report expired and an expiry in the future does not. A session without \<open>expires_at\<close>,
  or with \<open>expires_at\<close> 0, is never reported expired. For a state that passes the
  earlier gates of the guard, the guard redirects to the login page with the expiry
  message exactly when the check reports expired, and renders the page otherwise.
\<close>

theorem session_expired_iff:
  "(expires_at s = Some e \<and> e \<noteq> 0 \<longrightarrow>
      (session_expired now_ms s \<longleftrightarrow> e * 1000 \<le> now_ms))
   \<and> (expires_at s = None \<or> expires_at s = Some 0 \<longrightarrow> \<not> session_expired now_ms s)
   \<and> (\<not> loading st \<and> error st = None \<and> isAuthenticated st \<and> session st = Some s \<longrightarrow>
        ProtectedRoute now_ms st =
          (if session_expired now_ms s
           then NavigateLogin ''Your session has expired. Please sign in again.''
           else Children))"
proof -
  have "real_of_int e \<le> real_of_int now_ms / 1000 \<longleftrightarrow> e * 1000 \<le> now_ms"
  proof -
    have "real_of_int e \<le> real_of_int now_ms / 1000
            \<longleftrightarrow> real_of_int e * 1000 \<le> real_of_int now_ms"
      by (simp add: field_simps)
    also have "\<dots> \<longleftrightarrow> real_of_int (e * 1000) \<le> real_of_int now_ms"
      by simp
    also have "\<dots> \<longleftrightarrow> e * 1000 \<le> now_ms"
      by (rule of_int_le_iff)
    finally show ?thesis .
  qed
  then show ?thesis
    by (auto simp add: session_expired_def ProtectedRoute_def)
qed

theorem session_expired_iff_witness:
  "expires_at alice_session = Some 3600 \<and> (3600::int) \<noteq> 0
   \<and> session_expired 3600000 alice_session
   \<and> session_expired 3600001 alice_session
   \<and> \<not> session_expired 3599999 alice_session
   \<and> \<not> session_expired 3600000 \<lparr>session_user = alice, expires_at = None\<rparr>
   \<and> ProtectedRoute 3600000 (authenticated_state alice (Some ''alice'') alice_session) =
       NavigateLogin ''Your session has expired. Please sign in again.''
   \<and> ProtectedRoute 3599999 (authenticated_state alice (Some ''alice'') alice_session) =
       Children"
  using session_expired_iff [where s = alice_session and e = 3600 and now_ms = 3600000
      and st = "authenticated_state alice (Some ''alice'') alice_session"]
    session_expired_iff [where s = alice_session and e = 3600 and now_ms = 3600001
      and st = "authenticated_state alice (Some ''alice'') alice_session"]
    session_expired_iff [where s = alice_session and e = 3600 and now_ms = 3599999
      and st = "authenticated_state alice (Some ''alice'') alice_session"]
    session_expired_iff [where s = "\<lparr>session_user = alice, expires_at = None\<rparr>"
      and e = 3600 and now_ms = 3600000
      and st = "authenticated_state alice (Some ''alice'') alice_session"]
  by (simp add: alice_session_def authenticated_state_def)

section \<open>Sign-in failures\<close>

lemma signIn_cases:
  "(\<exists>cs err. signIn sb em pw prev = (cs, signIn_catch err prev))
   \<or> (\<exists>cs u p s. signIn sb em pw prev = (cs, Inr (), authenticated_state u p s))"
  by (auto simp add: signIn_def split: promise.splits option.splits sum.splits prod.splits)

text \<open>
  C7, as stated: every sign-in failure sets the error to a non-empty message. When the
  provider's error is an \<open>AuthError\<close> whose message is the empty string, the error field
  is set to that empty string.
\<close>

theorem signIn_failure_counterexample:
  "signIn (backend_failing\<lparr>auth_signInWithPassword :=
              \<lambda>em pw. Resolves (None, Some empty_auth_error)\<rparr>)
       ''a@b.com'' ''wrongpass'' signed_out_state =
     ([Auth_signInWithPassword ''a@b.com'' ''wrongpass''], Inl empty_auth_error,
      \<lparr>user = None, profile = None, session = None, loading = False, error = Some [],
       isAuthenticated = False\<rparr>)"
  by (simp add: signIn_def signIn_catch_def backend_failing_def signed_out_state_def
      instanceof_AuthError_def empty_auth_error_def)

text \<open>
  C7, amended. Whenever \<open>signIn\<close> fails with a thrown value \<open>err\<close>, the state is the
  previous state with \<open>isAuthenticated\<close> false and the error set to the message of
  \<open>err\<close> when \<open>err\<close> is an \<open>AuthError\<close>, and to the generic credential-failure
  message otherwise; the error is the empty string only when the provider's own message
  is; and \<open>err\<close> is raised to the caller. A provider answer with neither session nor
  error is such a failure (\<open>No session created after sign in\<close>), and so is every
  provider rejection or returned error, and so is a failing profile fetch after the
  provider returned a session: each of them is raised.
\<close>

theorem signIn_failure:
  "(fst (snd (signIn sb em pw prev)) = Inl err \<longrightarrow>
      snd (snd (signIn sb em pw prev)) =
        prev\<lparr>error := Some (if instanceof_AuthError err then message err
                            else ''Failed to sign in. Please check your credentials and try again.''),
             isAuthenticated := False\<rparr>
      \<and> \<not> isAuthenticated (snd (snd (signIn sb em pw prev)))
      \<and> (error (snd (snd (signIn sb em pw prev))) = Some [] \<longrightarrow>
           instanceof_AuthError err \<and> message err = []))
   \<and> (auth_signInWithPassword sb em pw = Resolves (None, None) \<longrightarrow>
        fst (snd (signIn sb em pw prev)) = Inl (new_Error ''No session created after sign in''))
   \<and> (auth_signInWithPassword sb em pw = Rejects err
        \<or> auth_signInWithPassword sb em pw = Resolves (sess, Some err) \<longrightarrow>
        fst (snd (signIn sb em pw prev)) = Inl err)
   \<and> (auth_signInWithPassword sb em pw = Resolves (Some s, None)
        \<and> snd (fetchProfile sb (id' (session_user s))) = Inl err \<longrightarrow>
        fst (snd (signIn sb em pw prev)) = Inl err)"
proof -
  have a: "fst (snd (signIn sb em pw prev)) = Inl err \<Longrightarrow>
           snd (snd (signIn sb em pw prev)) = snd (signIn_catch err prev)"
    using signIn_cases [of sb em pw prev] by (auto simp add: signIn_catch_def)
  have b: "auth_signInWithPassword sb em pw = Resolves (None, None) \<Longrightarrow>
        fst (snd (signIn sb em pw prev)) = Inl (new_Error ''No session created after sign in'')"
    by (simp add: signIn_def signIn_catch_def)
  have c: "auth_signInWithPassword sb em pw = Rejects err
        \<or> auth_signInWithPassword sb em pw = Resolves (sess, Some err) \<Longrightarrow>
        fst (snd (signIn sb em pw prev)) = Inl err"
    by (auto simp add: signIn_def signIn_catch_def)
  have d: "auth_signInWithPassword sb em pw = Resolves (Some s, None)
        \<and> snd (fetchProfile sb (id' (session_user s))) = Inl err \<Longrightarrow>
        fst (snd (signIn sb em pw prev)) = Inl err"
    by (cases "fetchProfile sb (id' (session_user s))")
      (auto simp add: signIn_def signIn_catch_def)
  show ?thesis
    using a b c d by (auto simp add: signIn_catch_def split: if_splits)
qed

theorem signIn_failure_witness:
  "fst (snd (signIn backend_failing ''a@b.com'' ''wrongpass''
               (authenticated_state alice (Some ''alice'') alice_session))) =
     Inl invalid_credentials
   \<and> snd (snd (signIn backend_failing ''a@b.com'' ''wrongpass''
                 (authenticated_state alice (Some ''alice'') alice_session))) =
       \<lparr>user = Some alice, profile = Some ''alice'', session = Some alice_session,
        loading = False, error = Some ''Invalid login credentials'', isAuthenticated = False\<rparr>
   \<and> auth_signInWithPassword
         (backend_ok\<lparr>auth_signInWithPassword := \<lambda>em pw. Resolves (None, None)\<rparr>)
         ''a@b.com'' ''validpass'' = Resolves (None, None)
   \<and> signIn (backend_ok\<lparr>auth_signInWithPassword := \<lambda>em pw. Resolves (None, None)\<rparr>)
         ''a@b.com'' ''validpass'' signed_out_state =
       ([Auth_signInWithPassword ''a@b.com'' ''validpass''],
        Inl \<lparr>cls = Error, message = ''No session created after sign in'', code = None\<rparr>,
        \<lparr>user = None, profile = None, session = None, loading = False,
         error = Some ''Failed to sign in. Please check your credentials and try again.'',
         isAuthenticated = False\<rparr>)
   \<and> error (snd (snd (signIn (backend_failing\<lparr>auth_signInWithPassword :=
                                  \<lambda>em pw. Rejects empty_auth_error\<rparr>)
                         ''a@b.com'' ''wrongpass'' signed_out_state))) = Some []
   \<and> instanceof_AuthError empty_auth_error \<and> message empty_auth_error = []
   \<and> auth_signInWithPassword backend_profile_down ''a@b.com'' ''validpass'' =
       Resolves (Some alice_session, None)
   \<and> snd (fetchProfile backend_profile_down (id' (session_user alice_session))) =
       Inl store_unreachable
   \<and> signIn backend_profile_down ''a@b.com'' ''validpass'' signed_out_state =
       ([Auth_signInWithPassword ''a@b.com'' ''validpass'', Profiles_select ''u1''],
        Inl store_unreachable,
        \<lparr>user = None, profile = None, session = None, loading = False,
         error = Some ''Failed to sign in. Please check your credentials and try again.'',
         isAuthenticated = False\<rparr>)"
  using signIn_failure [where sb = backend_profile_down and em = "''a@b.com''"
      and pw = "''validpass''" and err = store_unreachable and sess = None
      and s = alice_session and prev = signed_out_state]
    signIn_failure [where sb = "backend_failing\<lparr>auth_signInWithPassword :=
                                      \<lambda>em pw. Rejects empty_auth_error\<rparr>"
      and em = "''a@b.com''" and pw = "''wrongpass''" and err = empty_auth_error
      and sess = None and prev = signed_out_state]
    signIn_failure [where sb = backend_failing and em = "''a@b.com''"
      and pw = "''wrongpass''" and err = invalid_credentials and sess = None
      and prev = "authenticated_state alice (Some ''alice'') alice_session"]
    signIn_failure [where sb = "backend_ok\<lparr>auth_signInWithPassword :=
                                   \<lambda>em pw. Resolves (None, None)\<rparr>"
      and em = "''a@b.com''" and pw = "''validpass''"
      and err = "new_Error ''No session created after sign in''" and sess = None
      and prev = signed_out_state]
  by (simp add: backend_failing_def backend_ok_def authenticated_state_def
      signed_out_state_def instanceof_AuthError_def invalid_credentials_def new_Error_def
      empty_auth_error_def backend_profile_down_def fetchProfile_def alice_session_def
      alice_def store_unreachable_def signIn_def signIn_catch_def)

end
